theory Spec2Isabelle
  imports Main "HOL-Library.Word"
begin

section \<open>Week 3, Example 01: two senders and one receiver on a FreeRTOS queue\<close>

text \<open>
  The program is \<^verbatim>\<open>src/main.c\<close>. It calls the FreeRTOS kernel, the serial driver, the
  RGB driver and the C library, none of which belongs to the file. The embedding
  records every such call, with its arguments, in the order the program makes it; what a
  call returns is an input of the model.
\<close>

subsection \<open>Types of the target (Cortex-M0+, 32-bit)\<close>

type_synonym int32_t = "32 word"
type_synonym BaseType_t = "32 word"
type_synonym UBaseType_t = "32 word"
type_synonym pointer = "32 word"
type_synonym QueueHandle_t = "32 word"
type_synonym TickType_t = nat

definition NULL :: pointer where
  "NULL = 0"

definition sizeof_int32_t :: nat where
  "sizeof_int32_t = 4"

text \<open>
  Macros of the kernel's headers, which \<^verbatim>\<open>main.c\<close> does not define: they are
  parameters of the model. The program uses the first three; the last two are the
  statuses with which the kernel reports a full queue and a timeout.
\<close>

record config =
  pdMS_TO_TICKS :: "nat \<Rightarrow> TickType_t"
  configMINIMAL_STACK_SIZE :: nat
  pdPASS :: BaseType_t
  errQUEUE_FULL :: BaseType_t
  errQUEUE_EMPTY :: BaseType_t

text \<open>
  A configuration to evaluate the model on: a tick of one millisecond, and the values
  the kernel's headers give to the three status macros.
\<close>

definition demo_config :: config where
  "demo_config =
     \<lparr>pdMS_TO_TICKS = (\<lambda>ms. ms), configMINIMAL_STACK_SIZE = 128,
      pdPASS = 1, errQUEUE_FULL = 0, errQUEUE_EMPTY = 0\<rparr>"

subsection \<open>Calls that leave the file\<close>

datatype task_function = Fn_vSenderTask | Fn_vReceiverTask

datatype call =
    Call_rgb_init
  | Call_xSerialPortInit nat nat
  | Call_vSerialPutString string
  | Call_xQueueCreate nat nat
  | Call_vQueueAddToRegistry QueueHandle_t string
  | Call_xTaskCreate task_function string nat pointer nat pointer
  | Call_vTaskStartScheduler
  | Call_vTaskDelay TickType_t
  | Call_xQueueSendToBack QueueHandle_t int32_t TickType_t
  | Call_uxQueueMessagesWaiting QueueHandle_t
  | Call_xQueueReceive QueueHandle_t TickType_t
  | Call_sprintf nat string

text \<open>
  \<open>Call_sprintf n s\<close>: a call of \<^verbatim>\<open>sprintf\<close> whose destination is an array of \<open>n\<close>
  chars and whose formatted text is \<open>s\<close>; the call writes \<open>length s + 1\<close> bytes, the
  text and the terminating NUL.
\<close>

fun is_xQueueCreate :: "call \<Rightarrow> bool" where
  "is_xQueueCreate (Call_xQueueCreate n k) = True"
| "is_xQueueCreate c = False"

fun is_xTaskCreate :: "call \<Rightarrow> bool" where
  "is_xTaskCreate (Call_xTaskCreate f name depth arg prio handle) = True"
| "is_xTaskCreate c = False"

fun is_vTaskDelay :: "call \<Rightarrow> bool" where
  "is_vTaskDelay (Call_vTaskDelay t) = True"
| "is_vTaskDelay c = False"

fun is_xQueueSendToBack :: "call \<Rightarrow> bool" where
  "is_xQueueSendToBack (Call_xQueueSendToBack h v t) = True"
| "is_xQueueSendToBack c = False"

subsection \<open>Strings\<close>

definition CRLF :: string where
  "CRLF = [CHR 0x0D, CHR 0x0A]"

text \<open>The decimal digits of a natural number, most significant first.\<close>

fun digits_of :: "nat \<Rightarrow> string" where
  "digits_of n =
     (if n < 10 then [''0123456789'' ! n]
      else digits_of (n div 10) @ [''0123456789'' ! (n mod 10)])"

declare digits_of.simps [simp del]

text \<open>
  The \<^verbatim>\<open>d\<close> conversion of \<^verbatim>\<open>printf\<close> as ISO C defines it, for the two directives that
  matter here: \<open>printf_d True 4\<close> is \<^verbatim>\<open>% 4ld\<close> and \<open>printf_d False 4\<close> is \<^verbatim>\<open>%4d\<close>.
  The sign is \<^verbatim>\<open>-\<close> for a negative value; with the space flag a non-negative value gets
  a space in the place of the sign. The result is padded with spaces on the left up to
  the field width, and is never truncated.
\<close>

definition printf_d :: "bool \<Rightarrow> nat \<Rightarrow> int \<Rightarrow> string" where
  "printf_d space_flag width v =
     (let sign = (if v < 0 then ''-'' else if space_flag then '' '' else '''');
          body = sign @ digits_of (nat \<bar>v\<bar>)
      in replicate (width - length body) (CHR '' '') @ body)"

text \<open>\<^verbatim>\<open>sprintf(str, "Received = % 4ld\r\n", lReceivedValue)\<close>: the text it formats.\<close>

definition sprintf_Received :: "int32_t \<Rightarrow> string" where
  "sprintf_Received lReceivedValue =
     ''Received = '' @ printf_d True 4 (sint lReceivedValue) @ CRLF"

text \<open>The line as the specification words it, with the directive \<^verbatim>\<open>%4d\<close>.\<close>

definition spec_Received_line :: "int32_t \<Rightarrow> string" where
  "spec_Received_line v = ''Received = '' @ printf_d False 4 (sint v) @ CRLF"

text \<open>\<^verbatim>\<open>char str[16]\<close> in the receiver.\<close>

definition sizeof_str :: nat where
  "sizeof_str = 16"

subsection \<open>The entry routine\<close>

text \<open>
  \<^verbatim>\<open>main\<close> is a machine that makes one call per step. The global \<^verbatim>\<open>xQueue\<close> is part of
  its state and starts as a null handle, as a C global without initialiser does. The
  last two locations have no successor but themselves: \<open>Scheduler_running\<close> is
  \<^verbatim>\<open>vTaskStartScheduler\<close> that has not returned, \<open>At_for_ever\<close> is the empty
  \<^verbatim>\<open>for( ;; );\<close> that ends the function.
\<close>

datatype main_location =
    At_rgb_init
  | At_xSerialPortInit
  | At_banner_1
  | At_banner_2
  | At_xQueueCreate
  | At_vQueueAddToRegistry
  | At_xTaskCreate_Sender1
  | At_xTaskCreate_Sender2
  | At_xTaskCreate_Receiver
  | At_vTaskStartScheduler
  | Scheduler_running
  | At_for_ever

record main_env =
  xQueueCreate_returns :: QueueHandle_t
  vTaskStartScheduler_returns :: bool

record main_state =
  location :: main_location
  xQueue :: QueueHandle_t
  calls :: "call list"

definition main_init :: main_state where
  "main_init = \<lparr>location = At_rgb_init, xQueue = NULL, calls = []\<rparr>"

definition proceed :: "main_state \<Rightarrow> call \<Rightarrow> main_location \<Rightarrow> main_state" where
  "proceed s c l = s\<lparr>location := l, calls := calls s @ [c]\<rparr>"

definition main_step :: "config \<Rightarrow> main_env \<Rightarrow> main_state \<Rightarrow> main_state" where
  "main_step cfg env s =
     (case location s of
        At_rgb_init \<Rightarrow> proceed s Call_rgb_init At_xSerialPortInit
      | At_xSerialPortInit \<Rightarrow> proceed s (Call_xSerialPortInit 921600 128) At_banner_1
      | At_banner_1 \<Rightarrow>
          proceed s
            (Call_vSerialPutString
               (CRLF @ ''FRDM-KL25Z FreeRTOS demo Week 3 - Example 01'' @ CRLF))
            At_banner_2
      | At_banner_2 \<Rightarrow>
          proceed s (Call_vSerialPutString (''By Hugo Arends'' @ CRLF @ CRLF))
            At_xQueueCreate
      | At_xQueueCreate \<Rightarrow>
          (let h = xQueueCreate_returns env
           in proceed (s\<lparr>xQueue := h\<rparr>) (Call_xQueueCreate 5 sizeof_int32_t)
                (if h \<noteq> NULL then At_vQueueAddToRegistry else At_for_ever))
      | At_vQueueAddToRegistry \<Rightarrow>
          proceed s (Call_vQueueAddToRegistry (xQueue s) ''xQueue'')
            At_xTaskCreate_Sender1
      | At_xTaskCreate_Sender1 \<Rightarrow>
          proceed s
            (Call_xTaskCreate Fn_vSenderTask ''Sender1'' (configMINIMAL_STACK_SIZE cfg)
               100 1 NULL)
            At_xTaskCreate_Sender2
      | At_xTaskCreate_Sender2 \<Rightarrow>
          proceed s
            (Call_xTaskCreate Fn_vSenderTask ''Sender2'' (configMINIMAL_STACK_SIZE cfg)
               200 1 NULL)
            At_xTaskCreate_Receiver
      | At_xTaskCreate_Receiver \<Rightarrow>
          proceed s
            (Call_xTaskCreate Fn_vReceiverTask ''Receiver'' (configMINIMAL_STACK_SIZE cfg)
               NULL 2 NULL)
            At_vTaskStartScheduler
      | At_vTaskStartScheduler \<Rightarrow>
          proceed s Call_vTaskStartScheduler
            (if vTaskStartScheduler_returns env then At_for_ever else Scheduler_running)
      | Scheduler_running \<Rightarrow> s
      | At_for_ever \<Rightarrow> s)"

fun main_run :: "config \<Rightarrow> main_env \<Rightarrow> nat \<Rightarrow> main_state" where
  "main_run cfg env 0 = main_init"
| "main_run cfg env (Suc n) = main_step cfg env (main_run cfg env n)"

subsection \<open>The sender task\<close>

text \<open>
  One pass through the body of \<^verbatim>\<open>for (;;)\<close>. \<open>xStatus\<close> is what
  \<^verbatim>\<open>xQueueSendToBack\<close> returned in this pass.
\<close>

definition vSenderTask_iteration ::
  "config \<Rightarrow> QueueHandle_t \<Rightarrow> int32_t \<Rightarrow> BaseType_t \<Rightarrow> call list" where
  "vSenderTask_iteration cfg queue_handle lValueToSend xStatus =
     [Call_vTaskDelay (pdMS_TO_TICKS cfg 50),
      Call_xQueueSendToBack queue_handle lValueToSend 0] @
     (if xStatus \<noteq> pdPASS cfg
      then [Call_vSerialPutString (''Could not send to the queue.'' @ CRLF)]
      else [])"

text \<open>
  The loop has no exit. A run is given the answers of the kernel, one per pass, and
  makes one pass for each: a list of \<open>n\<close> answers yields the first \<open>n\<close> passes of the
  infinite run.
\<close>

fun vSenderTask_loop ::
  "config \<Rightarrow> QueueHandle_t \<Rightarrow> int32_t \<Rightarrow> BaseType_t list \<Rightarrow> call list" where
  "vSenderTask_loop cfg queue_handle lValueToSend [] = []"
| "vSenderTask_loop cfg queue_handle lValueToSend (xStatus # answers) =
     vSenderTask_iteration cfg queue_handle lValueToSend xStatus @
     vSenderTask_loop cfg queue_handle lValueToSend answers"

definition vSenderTask ::
  "config \<Rightarrow> QueueHandle_t \<Rightarrow> pointer \<Rightarrow> BaseType_t list \<Rightarrow> call list" where
  "vSenderTask cfg queue_handle pvParameters answers =
     (let lValueToSend = (ucast pvParameters :: int32_t)
      in vSenderTask_loop cfg queue_handle lValueToSend answers)"

subsection \<open>The receiver task\<close>

text \<open>
  What the kernel answers in one pass of the receiver: the count returned by
  \<^verbatim>\<open>uxQueueMessagesWaiting\<close>, the status returned by \<^verbatim>\<open>xQueueReceive\<close>, and the
  content of \<^verbatim>\<open>lReceivedValue\<close> after that call.
\<close>

record receiver_answer =
  messages_waiting :: UBaseType_t
  receive_status :: BaseType_t
  lReceivedValue :: int32_t

text \<open>
  How far C defines a run of a task. \<open>Goes_on\<close>: every call so far is defined, and the
  task goes on. \<open>Undefined_behaviour\<close>: the last call of the list wrote past the end of
  its destination; C defines nothing from that call on, so the list ends with it and
  nothing is said about what the task does next.
\<close>

datatype outcome = Goes_on | Undefined_behaviour

text \<open>
  \<^verbatim>\<open>sprintf\<close> writes the text and a terminating NUL; the write stays inside an array of
  \<open>n\<close> chars when these \<open>length s + 1\<close> bytes are at most \<open>n\<close>.
\<close>

definition sprintf_fits :: "nat \<Rightarrow> string \<Rightarrow> bool" where
  "sprintf_fits n s \<longleftrightarrow> length s + 1 \<le> n"

text \<open>
  One pass through the body of \<^verbatim>\<open>for (;;)\<close>. In the branch of a successful receive
  the text is formatted into \<^verbatim>\<open>char str[16]\<close>; the pass hands it to
  \<^verbatim>\<open>vSerialPutString\<close> and goes on only when it fits.
\<close>

definition vReceiverTask_iteration ::
  "config \<Rightarrow> QueueHandle_t \<Rightarrow> receiver_answer \<Rightarrow> call list \<times> outcome" where
  "vReceiverTask_iteration cfg queue_handle a =
     (let xTicksToWait = pdMS_TO_TICKS cfg 100;
          checked =
            [Call_uxQueueMessagesWaiting queue_handle] @
            (if messages_waiting a \<noteq> 0
             then [Call_vSerialPutString (''Queue should have been empty!'' @ CRLF)]
             else []) @
            [Call_xQueueReceive queue_handle xTicksToWait]
      in if receive_status a = pdPASS cfg
         then (let str = sprintf_Received (lReceivedValue a)
               in if sprintf_fits sizeof_str str
                  then (checked @ [Call_sprintf sizeof_str str, Call_vSerialPutString str],
                        Goes_on)
                  else (checked @ [Call_sprintf sizeof_str str], Undefined_behaviour))
         else (checked @
               [Call_vSerialPutString (''Could not receive from the queue.'' @ CRLF)],
               Goes_on))"

text \<open>
  The loop has no exit. A run makes one pass for each answer of the kernel, as long as
  the passes are defined; it ends with the first pass that is not.
\<close>

fun vReceiverTask_loop ::
  "config \<Rightarrow> QueueHandle_t \<Rightarrow> receiver_answer list \<Rightarrow> call list \<times> outcome" where
  "vReceiverTask_loop cfg queue_handle [] = ([], Goes_on)"
| "vReceiverTask_loop cfg queue_handle (a # answers) =
     (case vReceiverTask_iteration cfg queue_handle a of
        (cs, Undefined_behaviour) \<Rightarrow> (cs, Undefined_behaviour)
      | (cs, Goes_on) \<Rightarrow>
          (case vReceiverTask_loop cfg queue_handle answers of
             (rest, out) \<Rightarrow> (cs @ rest, out)))"

definition vReceiverTask ::
  "config \<Rightarrow> QueueHandle_t \<Rightarrow> pointer \<Rightarrow> receiver_answer list \<Rightarrow> call list \<times> outcome" where
  "vReceiverTask cfg queue_handle pvParameters answers =
     vReceiverTask_loop cfg queue_handle answers"

subsection \<open>The bounded queue\<close>

text \<open>
  Modelled from the spec: the queue is the kernel's, and \<^verbatim>\<open>main.c\<close> holds only its
  callers. The specification describes it as a fixed-capacity FIFO of fixed-size
  elements, here 4-byte signed integers; the number of buffered elements is the length
  of \<open>buffered\<close>, oldest element first.
\<close>

record queue =
  capacity :: nat
  item_size :: nat
  buffered :: "int32_t list"

text \<open>
  Modelled from the spec: a queue is created with its capacity and the size of its
  elements, and holds nothing at first.
\<close>

definition queue_create :: "nat \<Rightarrow> nat \<Rightarrow> queue" where
  "queue_create n k = \<lparr>capacity = n, item_size = k, buffered = []\<rparr>"

text \<open>
  Modelled from the spec: \<^verbatim>\<open>occupancy() -> count\<close>, the number of buffered elements.
\<close>

definition queue_occupancy :: "queue \<Rightarrow> nat" where
  "queue_occupancy q = length (buffered q)"

text \<open>
  Modelled from the spec: the two results of a send, \<^verbatim>\<open>success|full\<close>, and the two
  of a receive, \<^verbatim>\<open>success|timeout\<close>; a successful receive delivers a value.
\<close>

datatype send_result = Send_success | Send_full

datatype receive_result = Receive_success int32_t | Receive_timeout

text \<open>
  Modelled from the spec: \<^verbatim>\<open>send(value, waitTicks) -> success|full\<close>. The queue holds
  at most its capacity; a send that finds it full fails and leaves it as it was. The
  result is the one the call completes with: with \<open>waitTicks = 0\<close>, the only send of
  the program, that is at once.
\<close>

definition queue_send :: "queue \<Rightarrow> int32_t \<Rightarrow> TickType_t \<Rightarrow> send_result \<times> queue" where
  "queue_send q v waitTicks =
     (if queue_occupancy q < capacity q
      then (Send_success, q\<lparr>buffered := buffered q @ [v]\<rparr>)
      else (Send_full, q))"

text \<open>
  Modelled from the spec: \<^verbatim>\<open>receive(buffer, waitTicks) -> success|timeout\<close>. The
  result is the one the call completes with: the oldest element, removed from the queue,
  or a timeout on a queue that stayed empty for the whole wait.
\<close>

definition queue_receive :: "queue \<Rightarrow> TickType_t \<Rightarrow> receive_result \<times> queue" where
  "queue_receive q waitTicks =
     (case buffered q of
        [] \<Rightarrow> (Receive_timeout, q)
      | v # rest \<Rightarrow> (Receive_success v, q\<lparr>buffered := rest\<rparr>))"

subsection \<open>The tasks on the queue\<close>

text \<open>
  Modelled from the spec: a send on a full queue returns failure, and so does a receive
  that times out (scenarios 2 and 3). The task sees a success as the status
  \<^verbatim>\<open>pdPASS\<close>, the one it tests for, and a failure as the status \<^verbatim>\<open>errQUEUE_FULL\<close>
  or \<^verbatim>\<open>errQUEUE_EMPTY\<close>; all three are parameters of the model.
\<close>

definition status_of_send :: "config \<Rightarrow> send_result \<Rightarrow> BaseType_t" where
  "status_of_send cfg r = (case r of Send_success \<Rightarrow> pdPASS cfg | Send_full \<Rightarrow> errQUEUE_FULL cfg)"

definition status_of_receive :: "config \<Rightarrow> receive_result \<Rightarrow> BaseType_t" where
  "status_of_receive cfg r =
     (case r of Receive_success v \<Rightarrow> pdPASS cfg | Receive_timeout \<Rightarrow> errQUEUE_EMPTY cfg)"

text \<open>
  One pass of a sender on the queue: the body of the loop in \<^verbatim>\<open>main.c\<close>, with the
  status that the send on the queue gives.
\<close>

definition sender_pass ::
  "config \<Rightarrow> QueueHandle_t \<Rightarrow> int32_t \<Rightarrow> queue \<Rightarrow> call list \<times> queue" where
  "sender_pass cfg queue_handle lValueToSend q =
     (let (r, q') = queue_send q lValueToSend 0
      in (vSenderTask_iteration cfg queue_handle lValueToSend (status_of_send cfg r), q'))"

text \<open>
  One pass of the receiver on the queue. The count is the occupancy at the start of the
  pass. A receive that fails does not write \<^verbatim>\<open>lReceivedValue\<close>, which keeps the
  content \<open>old\<close> it had; the result carries the content after the pass. The receive
  is made before the text is formatted, so the queue has changed when the pass ends
  undefined.
\<close>

definition receiver_pass ::
  "config \<Rightarrow> QueueHandle_t \<Rightarrow> int32_t \<Rightarrow> queue \<Rightarrow>
     call list \<times> outcome \<times> int32_t \<times> queue" where
  "receiver_pass cfg queue_handle old q =
     (let n = queue_occupancy q;
          (r, q') = queue_receive q (pdMS_TO_TICKS cfg 100);
          new = (case r of Receive_success v \<Rightarrow> v | Receive_timeout \<Rightarrow> old);
          (cs, out) =
            vReceiverTask_iteration cfg queue_handle
              \<lparr>messages_waiting = of_nat n, receive_status = status_of_receive cfg r,
               lReceivedValue = new\<rparr>
      in (cs, out, new, q'))"

text \<open>
  Modelled from the spec: the scheduler is the kernel's; here it may run the tasks in
  any order. A schedule is the list of the tasks in the order in which they make their
  passes. The tasks are the three that \<^verbatim>\<open>main\<close> creates, the queue is the one
  \<^verbatim>\<open>main\<close> creates, and the senders carry the parameters \<^verbatim>\<open>main\<close> gives them.
  A pass changes the queue in one place only, its send or its receive; the count that
  the receiver reads first leaves the queue as it is. So the contents the queue goes
  through are the same wherever in a pass another task gets to run.

  \<open>sys_receiver\<close> tells whether every pass of the receiver so far was defined. A
  schedule may give the receiver further passes after one that was not: these are the
  runs in which the overrun did the receiver no harm, and a run in which the receiver
  makes no pass any more is the schedule without them. What is shown of the queue for
  every schedule holds in either case.
\<close>

datatype task = Sender1 | Sender2 | Receiver

record system =
  sys_queue :: queue
  sys_lReceivedValue :: int32_t
  sys_receiver :: outcome
  sys_calls :: "call list"

definition system_init :: "int32_t \<Rightarrow> system" where
  "system_init uninitialised =
     \<lparr>sys_queue = queue_create 5 sizeof_int32_t, sys_lReceivedValue = uninitialised,
      sys_receiver = Goes_on, sys_calls = []\<rparr>"

fun task_pass :: "config \<Rightarrow> QueueHandle_t \<Rightarrow> system \<Rightarrow> task \<Rightarrow> system" where
  "task_pass cfg queue_handle s Sender1 =
     (let (cs, q') = sender_pass cfg queue_handle 100 (sys_queue s)
      in s\<lparr>sys_queue := q', sys_calls := sys_calls s @ cs\<rparr>)"
| "task_pass cfg queue_handle s Sender2 =
     (let (cs, q') = sender_pass cfg queue_handle 200 (sys_queue s)
      in s\<lparr>sys_queue := q', sys_calls := sys_calls s @ cs\<rparr>)"
| "task_pass cfg queue_handle s Receiver =
     (let (cs, out, new, q') =
            receiver_pass cfg queue_handle (sys_lReceivedValue s) (sys_queue s)
      in s\<lparr>sys_queue := q', sys_lReceivedValue := new,
           sys_receiver :=
             (if sys_receiver s = Undefined_behaviour then Undefined_behaviour else out),
           sys_calls := sys_calls s @ cs\<rparr>)"

definition run_schedule :: "config \<Rightarrow> QueueHandle_t \<Rightarrow> task list \<Rightarrow> system \<Rightarrow> system" where
  "run_schedule cfg queue_handle schedule s = foldl (task_pass cfg queue_handle) s schedule"

subsection \<open>Notation for the calls of the entry routine\<close>

abbreviation banner_1 :: string where
  "banner_1 \<equiv> CRLF @ ''FRDM-KL25Z FreeRTOS demo Week 3 - Example 01'' @ CRLF"

abbreviation banner_2 :: string where
  "banner_2 \<equiv> ''By Hugo Arends'' @ CRLF @ CRLF"

abbreviation calls_to_xQueueCreate :: "call list" where
  "calls_to_xQueueCreate \<equiv>
     [Call_rgb_init, Call_xSerialPortInit 921600 128, Call_vSerialPutString banner_1,
      Call_vSerialPutString banner_2, Call_xQueueCreate 5 sizeof_int32_t]"

abbreviation calls_after_xQueueCreate :: "config \<Rightarrow> QueueHandle_t \<Rightarrow> call list" where
  "calls_after_xQueueCreate cfg h \<equiv>
     [Call_vQueueAddToRegistry h ''xQueue'',
      Call_xTaskCreate Fn_vSenderTask ''Sender1'' (configMINIMAL_STACK_SIZE cfg) 100 1 NULL,
      Call_xTaskCreate Fn_vSenderTask ''Sender2'' (configMINIMAL_STACK_SIZE cfg) 200 1 NULL,
      Call_xTaskCreate Fn_vReceiverTask ''Receiver'' (configMINIMAL_STACK_SIZE cfg) NULL 2 NULL,
      Call_vTaskStartScheduler]"

subsection \<open>The invariant of the queue\<close>

definition queue_within :: "queue \<Rightarrow> bool" where
  "queue_within q \<longleftrightarrow> capacity q = 5 \<and> queue_occupancy q \<le> 5"

section \<open>Properties\<close>

lemma demo_config_simps:
  "pdMS_TO_TICKS demo_config ms = ms"
  "configMINIMAL_STACK_SIZE demo_config = 128"
  "pdPASS demo_config = 1"
  "errQUEUE_FULL demo_config = 0"
  "errQUEUE_EMPTY demo_config = 0"
  by (simp_all add: demo_config_def)

subsection \<open>The formatted line\<close>

lemma length_digits_of_pos: "0 < length (digits_of n)"
  by (subst digits_of.simps) simp

lemma length_digits_of_small: "n < 10 \<Longrightarrow> length (digits_of n) = 1"
  by (subst digits_of.simps) simp

lemma length_digits_of_step:
  "10 \<le> n \<Longrightarrow> length (digits_of n) = Suc (length (digits_of (n div 10)))"
  by (subst digits_of.simps) simp

lemma length_digits_of_le3: "n < 1000 \<Longrightarrow> length (digits_of n) \<le> 3"
proof -
  assume h: "n < 1000"
  show ?thesis
  proof (cases "n < 10")
    case True then show ?thesis by (simp add: length_digits_of_small)
  next
    case False
    then have a: "10 \<le> n" by simp
    show ?thesis
    proof (cases "n div 10 < 10")
      case True then show ?thesis
        using length_digits_of_step [OF a] by (simp add: length_digits_of_small)
    next
      case False
      then have b: "10 \<le> n div 10" by simp
      from h have "n div 10 div 10 < 10" by auto
      then show ?thesis
        using length_digits_of_step [OF a] length_digits_of_step [OF b]
        by (simp add: length_digits_of_small)
    qed
  qed
qed

lemma length_printf_d: "width \<le> length (printf_d space_flag width v)"
  by (simp add: printf_d_def Let_def)

lemma printf_d_negative: "v < 0 \<Longrightarrow> printf_d True w v = printf_d False w v"
  by (simp add: printf_d_def)

lemma printf_d_small:
  assumes "0 \<le> v" and "v < 1000"
  shows "printf_d True 4 v = printf_d False 4 v"
proof -
  from assms have "nat \<bar>v\<bar> < 1000" by simp
  then have le: "length (digits_of (nat \<bar>v\<bar>)) \<le> 3" by (rule length_digits_of_le3)
  have "replicate (3 - length (digits_of (nat \<bar>v\<bar>))) (CHR '' '') @ [CHR '' '']
        = replicate (Suc (3 - length (digits_of (nat \<bar>v\<bar>)))) (CHR '' '')"
    by (simp add: replicate_append_same)
  also have "Suc (3 - length (digits_of (nat \<bar>v\<bar>))) = 4 - length (digits_of (nat \<bar>v\<bar>))"
    using le by simp
  finally show ?thesis
    using assms by (simp add: printf_d_def Let_def)
qed

lemma sprintf_Received_100: "sprintf_Received 100 = ''Received =  100'' @ CRLF"
  by (simp add: sprintf_Received_def printf_d_def digits_of.simps)

lemma sprintf_Received_200: "sprintf_Received 200 = ''Received =  200'' @ CRLF"
  by (simp add: sprintf_Received_def printf_d_def digits_of.simps)

lemma length_sprintf_Received: "17 \<le> length (sprintf_Received v)"
  using length_printf_d [of 4 True "sint v"] by (simp add: sprintf_Received_def CRLF_def)

lemma sprintf_Received_overruns: "\<not> sprintf_fits sizeof_str (sprintf_Received v)"
  using length_sprintf_Received [of v] by (simp add: sprintf_fits_def sizeof_str_def)

lemma sprintf_Received_below_1000:
  assumes "sint v < 1000"
  shows "sprintf_Received v = spec_Received_line v"
proof (cases "sint v < 0")
  case True
  then show ?thesis
    by (simp add: sprintf_Received_def spec_Received_line_def printf_d_negative)
next
  case False
  with assms have "printf_d True 4 (sint v) = printf_d False 4 (sint v)"
    by (simp add: printf_d_small)
  then show ?thesis
    by (simp add: sprintf_Received_def spec_Received_line_def)
qed

lemma vReceiverTask_iteration_pass:
  "vReceiverTask_iteration cfg h a =
     ([Call_uxQueueMessagesWaiting h] @
      (if messages_waiting a \<noteq> 0
       then [Call_vSerialPutString (''Queue should have been empty!'' @ CRLF)]
       else []) @
      [Call_xQueueReceive h (pdMS_TO_TICKS cfg 100)] @
      (if receive_status a = pdPASS cfg
       then [Call_sprintf sizeof_str (sprintf_Received (lReceivedValue a))]
       else [Call_vSerialPutString (''Could not receive from the queue.'' @ CRLF)]),
      if receive_status a = pdPASS cfg then Undefined_behaviour else Goes_on)"
  by (simp add: vReceiverTask_iteration_def Let_def sprintf_Received_overruns)

text \<open>
  Claim C3: the text that the receiver formats for a received value below 1000, so for
  100 and for 200, is the line of the specification, \<^verbatim>\<open>Received = \<close> and the value
  as \<^verbatim>\<open>%4d\<close> prints it and CR LF; for 100 it is \<^verbatim>\<open>Received =  100\<close> and CR LF. The
  code does not get as far as emitting it: the pass ends with the \<^verbatim>\<open>sprintf\<close> that
  overruns \<^verbatim>\<open>str\<close>, undefined from there, and no call of the pass hands the line to
  \<^verbatim>\<open>vSerialPutString\<close>.
\<close>

theorem C3_received_line_not_emitted:
  "receive_status a = pdPASS cfg \<Longrightarrow> sint (lReceivedValue a) < 1000 \<Longrightarrow>
     sprintf_Received (lReceivedValue a) = spec_Received_line (lReceivedValue a)
     \<and> (lReceivedValue a = 100 \<longrightarrow>
          spec_Received_line (lReceivedValue a) = ''Received =  100'' @ CRLF)
     \<and> last (fst (vReceiverTask_iteration cfg h a))
         = Call_sprintf sizeof_str (spec_Received_line (lReceivedValue a))
     \<and> snd (vReceiverTask_iteration cfg h a) = Undefined_behaviour
     \<and> Call_vSerialPutString (spec_Received_line (lReceivedValue a))
         \<notin> set (fst (vReceiverTask_iteration cfg h a))"
proof -
  assume pass: "receive_status a = pdPASS cfg" and below: "sint (lReceivedValue a) < 1000"
  let ?v = "lReceivedValue a"
  have line: "sprintf_Received ?v = spec_Received_line ?v"
    using below by (rule sprintf_Received_below_1000)
  have hundred: "spec_Received_line ?v = ''Received =  100'' @ CRLF" if "?v = 100"
    using that line sprintf_Received_100 by simp
  have other: "''Queue should have been empty!'' @ CRLF \<noteq> sprintf_Received ?v"
    by (simp add: sprintf_Received_def)
  have stops: "last (fst (vReceiverTask_iteration cfg h a))
      = Call_sprintf sizeof_str (sprintf_Received ?v)"
    and undefined: "snd (vReceiverTask_iteration cfg h a) = Undefined_behaviour"
    and silent: "Call_vSerialPutString (sprintf_Received ?v)
      \<notin> set (fst (vReceiverTask_iteration cfg h a))"
    using pass other by (simp_all add: vReceiverTask_iteration_pass)
  from line hundred stops undefined silent show ?thesis by simp
qed

theorem C3_received_line_not_emitted_witness:
  "sprintf_Received 100 = ''Received =  100'' @ CRLF
   \<and> spec_Received_line 100 = ''Received =  100'' @ CRLF
   \<and> vReceiverTask_iteration demo_config 1
       \<lparr>messages_waiting = 0, receive_status = 1, lReceivedValue = 100\<rparr>
     = ([Call_uxQueueMessagesWaiting 1, Call_xQueueReceive 1 100,
         Call_sprintf 16 (''Received =  100'' @ CRLF)],
        Undefined_behaviour)
   \<and> sprintf_Received 200 = spec_Received_line 200
   \<and> snd (vReceiverTask_iteration demo_config 1
       \<lparr>messages_waiting = 0, receive_status = 1, lReceivedValue = 200\<rparr>)
     = Undefined_behaviour"
proof -
  have p: "receive_status \<lparr>messages_waiting = 0, receive_status = 1, lReceivedValue = v\<rparr>
      = pdPASS demo_config" for v :: int32_t
    by (simp add: demo_config_simps)
  have b1: "sint (lReceivedValue
      \<lparr>messages_waiting = 0, receive_status = 1, lReceivedValue = (100 :: int32_t)\<rparr>) < 1000"
    and b2: "sint (lReceivedValue
      \<lparr>messages_waiting = 0, receive_status = 1, lReceivedValue = (200 :: int32_t)\<rparr>) < 1000"
    by simp_all
  note at_100 = C3_received_line_not_emitted [OF p [of 100] b1, of 1,
      unfolded receiver_answer.select_convs]
  note at_200 = C3_received_line_not_emitted [OF p [of 200] b2, of 1,
      unfolded receiver_answer.select_convs]
  have pass_100: "vReceiverTask_iteration demo_config 1
       \<lparr>messages_waiting = 0, receive_status = 1, lReceivedValue = 100\<rparr>
     = ([Call_uxQueueMessagesWaiting 1, Call_xQueueReceive 1 100,
         Call_sprintf 16 (''Received =  100'' @ CRLF)],
        Undefined_behaviour)"
    by (simp add: vReceiverTask_iteration_pass demo_config_simps sprintf_Received_100
        sizeof_str_def)
  from at_100 have "sprintf_Received 100 = spec_Received_line 100
      \<and> spec_Received_line 100 = ''Received =  100'' @ CRLF"
    by blast
  moreover from at_200 have "sprintf_Received 200 = spec_Received_line 200
      \<and> snd (vReceiverTask_iteration demo_config 1
       \<lparr>messages_waiting = 0, receive_status = 1, lReceivedValue = 200\<rparr>)
     = Undefined_behaviour"
    by blast
  ultimately show ?thesis
    using pass_100 by simp
qed

text \<open>
  Claim C10: in a pass whose receive succeeds, \<^verbatim>\<open>sprintf\<close> is called on the 16-byte
  array \<^verbatim>\<open>str\<close>. For a value of three digits or more the formatted text has at
  least 17 characters, so that with the terminating NUL at least 18 bytes are written,
  more than the array holds. The values 100 and 200 give 18 bytes each.
\<close>

theorem C10_sprintf_overruns_str:
  "receive_status a = pdPASS cfg \<Longrightarrow>
   3 \<le> length (digits_of (nat \<bar>sint (lReceivedValue a)\<bar>)) \<Longrightarrow>
     Call_sprintf 16 (sprintf_Received (lReceivedValue a))
       \<in> set (fst (vReceiverTask_iteration cfg h a))
     \<and> 17 \<le> length (sprintf_Received (lReceivedValue a))
     \<and> 18 \<le> length (sprintf_Received (lReceivedValue a)) + 1
     \<and> sizeof_str < length (sprintf_Received (lReceivedValue a)) + 1
     \<and> snd (vReceiverTask_iteration cfg h a) = Undefined_behaviour"
  using length_sprintf_Received [of "lReceivedValue a"]
  by (simp add: vReceiverTask_iteration_pass sizeof_str_def)

theorem C10_sprintf_overruns_str_witness:
  "3 \<le> length (digits_of (nat \<bar>sint (100 :: int32_t)\<bar>))
   \<and> 3 \<le> length (digits_of (nat \<bar>sint (200 :: int32_t)\<bar>))
   \<and> Call_sprintf 16 (''Received =  100'' @ CRLF)
       \<in> set (fst (vReceiverTask_iteration demo_config 1
           \<lparr>messages_waiting = 0, receive_status = 1, lReceivedValue = 100\<rparr>))
   \<and> Call_sprintf 16 (''Received =  200'' @ CRLF)
       \<in> set (fst (vReceiverTask_iteration demo_config 1
           \<lparr>messages_waiting = 0, receive_status = 1, lReceivedValue = 200\<rparr>))
   \<and> length (''Received =  100'' @ CRLF) + 1 = 18
   \<and> length (''Received =  200'' @ CRLF) + 1 = 18
   \<and> sizeof_str < 18"
proof -
  have p: "receive_status \<lparr>messages_waiting = 0, receive_status = 1, lReceivedValue = v\<rparr>
      = pdPASS demo_config" for v :: int32_t
    by (simp add: demo_config_def)
  have d1: "3 \<le> length (digits_of (nat \<bar>sint (lReceivedValue
      \<lparr>messages_waiting = 0, receive_status = 1, lReceivedValue = (100 :: int32_t)\<rparr>)\<bar>))"
    by (simp add: digits_of.simps)
  have d2: "3 \<le> length (digits_of (nat \<bar>sint (lReceivedValue
      \<lparr>messages_waiting = 0, receive_status = 1, lReceivedValue = (200 :: int32_t)\<rparr>)\<bar>))"
    by (simp add: digits_of.simps)
  show ?thesis
    using C10_sprintf_overruns_str [OF p [of 100] d1, of 1]
      C10_sprintf_overruns_str [OF p [of 200] d2, of 1] d1 d2
    by (simp add: sprintf_Received_100 sprintf_Received_200 sizeof_str_def CRLF_def)
qed

subsection \<open>The receiver task\<close>

text \<open>
  Claim C1: a pass of the receiver first reads the number of messages waiting and emits
  \<^verbatim>\<open>Queue should have been empty!\<close> with CR LF exactly when that number is not zero,
  then calls \<^verbatim>\<open>xQueueReceive\<close> with a wait of 100 ms. When the receive fails it emits
  \<^verbatim>\<open>Could not receive from the queue.\<close> with CR LF and the next pass follows. When
  the receive succeeds it formats the value into \<^verbatim>\<open>str\<close>, which the text overruns:
  the run is undefined from that call on, the text is not handed to
  \<^verbatim>\<open>vSerialPutString\<close>, and no further pass is made.
\<close>

theorem C1_receiver_pass_overrun:
  "vReceiverTask cfg h p (a # after) =
     (if receive_status a = pdPASS cfg
      then ([Call_uxQueueMessagesWaiting h] @
            (if messages_waiting a \<noteq> 0
             then [Call_vSerialPutString (''Queue should have been empty!'' @ CRLF)]
             else []) @
            [Call_xQueueReceive h (pdMS_TO_TICKS cfg 100),
             Call_sprintf sizeof_str (sprintf_Received (lReceivedValue a))],
            Undefined_behaviour)
      else ([Call_uxQueueMessagesWaiting h] @
            (if messages_waiting a \<noteq> 0
             then [Call_vSerialPutString (''Queue should have been empty!'' @ CRLF)]
             else []) @
            [Call_xQueueReceive h (pdMS_TO_TICKS cfg 100),
             Call_vSerialPutString (''Could not receive from the queue.'' @ CRLF)] @
            fst (vReceiverTask cfg h p after),
            snd (vReceiverTask cfg h p after)))
   \<and> sizeof_str < length (sprintf_Received (lReceivedValue a)) + 1"
  using length_sprintf_Received [of "lReceivedValue a"]
  by (simp add: vReceiverTask_def vReceiverTask_iteration_pass sizeof_str_def
      case_prod_beta)

theorem C1_receiver_pass_overrun_witness:
  "vReceiverTask demo_config 1 NULL
     [\<lparr>messages_waiting = 0, receive_status = 0, lReceivedValue = 0\<rparr>,
      \<lparr>messages_waiting = 1, receive_status = 1, lReceivedValue = 100\<rparr>,
      \<lparr>messages_waiting = 0, receive_status = 1, lReceivedValue = 200\<rparr>]
   = ([Call_uxQueueMessagesWaiting 1, Call_xQueueReceive 1 100,
       Call_vSerialPutString (''Could not receive from the queue.'' @ CRLF),
       Call_uxQueueMessagesWaiting 1,
       Call_vSerialPutString (''Queue should have been empty!'' @ CRLF),
       Call_xQueueReceive 1 100,
       Call_sprintf 16 (''Received =  100'' @ CRLF)],
      Undefined_behaviour)"
proof -
  let ?a1 = "\<lparr>messages_waiting = 0, receive_status = 0, lReceivedValue = 0\<rparr>"
  let ?a2 = "\<lparr>messages_waiting = 1, receive_status = 1, lReceivedValue = 100\<rparr>"
  let ?a3 = "\<lparr>messages_waiting = 0, receive_status = 1, lReceivedValue = 200\<rparr>"
  have second: "vReceiverTask demo_config 1 NULL [?a2, ?a3]
     = ([Call_uxQueueMessagesWaiting 1,
         Call_vSerialPutString (''Queue should have been empty!'' @ CRLF),
         Call_xQueueReceive 1 100,
         Call_sprintf 16 (''Received =  100'' @ CRLF)],
        Undefined_behaviour)"
    using C1_receiver_pass_overrun [of demo_config 1 NULL ?a2 "[?a3]"]
    by (simp add: demo_config_simps sprintf_Received_100 sizeof_str_def)
  show ?thesis
    using C1_receiver_pass_overrun [of demo_config 1 NULL ?a1 "[?a2, ?a3]"]
    by (simp add: second demo_config_simps)
qed

subsection \<open>The sender task\<close>

lemma vSenderTask_loop_append:
  "vSenderTask_loop cfg h v (xs @ ys) = vSenderTask_loop cfg h v xs @ vSenderTask_loop cfg h v ys"
  by (induction xs) simp_all

lemma vSenderTask_loop_delays:
  "length (filter is_vTaskDelay (vSenderTask_loop cfg h v answers)) = length answers"
  by (induction answers) (simp_all add: vSenderTask_iteration_def)

text \<open>
  Claim C2: every pass of a sender, whatever passes came before and come after, first
  delays for 50 ms, then sends its parameter to the back of the queue with a wait of
  zero ticks, and emits \<^verbatim>\<open>Could not send to the queue.\<close> with CR LF exactly when the
  send did not return \<^verbatim>\<open>pdPASS\<close>; the next pass follows. On the queue of the
  specification the send fails exactly when the queue is full, and then the queue is
  left as it was.
\<close>

theorem C2_sender_pass:
  "errQUEUE_FULL cfg \<noteq> pdPASS cfg \<Longrightarrow>
     vSenderTask cfg h p (before @ xStatus # after) =
       vSenderTask cfg h p before @
       ([Call_vTaskDelay (pdMS_TO_TICKS cfg 50), Call_xQueueSendToBack h p 0] @
        (if xStatus \<noteq> pdPASS cfg
         then [Call_vSerialPutString (''Could not send to the queue.'' @ CRLF)]
         else [])) @
       vSenderTask cfg h p after
     \<and> length (filter is_vTaskDelay (vSenderTask cfg h p answers)) = length answers
     \<and> sender_pass cfg h p q =
         (if queue_occupancy q < capacity q
          then ([Call_vTaskDelay (pdMS_TO_TICKS cfg 50), Call_xQueueSendToBack h p 0],
                q\<lparr>buffered := buffered q @ [p]\<rparr>)
          else ([Call_vTaskDelay (pdMS_TO_TICKS cfg 50), Call_xQueueSendToBack h p 0,
                 Call_vSerialPutString (''Could not send to the queue.'' @ CRLF)],
                q))"
proof -
  assume distinct: "errQUEUE_FULL cfg \<noteq> pdPASS cfg"
  have "vSenderTask_loop cfg h p (before @ xStatus # after) =
      vSenderTask_loop cfg h p before @ vSenderTask_iteration cfg h p xStatus @
      vSenderTask_loop cfg h p after"
    by (simp add: vSenderTask_loop_append)
  then have passes: "vSenderTask cfg h p (before @ xStatus # after) =
       vSenderTask cfg h p before @
       ([Call_vTaskDelay (pdMS_TO_TICKS cfg 50), Call_xQueueSendToBack h p 0] @
        (if xStatus \<noteq> pdPASS cfg
         then [Call_vSerialPutString (''Could not send to the queue.'' @ CRLF)]
         else [])) @
       vSenderTask cfg h p after"
    by (simp add: vSenderTask_def vSenderTask_iteration_def)
  have count: "length (filter is_vTaskDelay (vSenderTask cfg h p answers)) = length answers"
    by (simp add: vSenderTask_def vSenderTask_loop_delays)
  have on_queue: "sender_pass cfg h p q =
         (if queue_occupancy q < capacity q
          then ([Call_vTaskDelay (pdMS_TO_TICKS cfg 50), Call_xQueueSendToBack h p 0],
                q\<lparr>buffered := buffered q @ [p]\<rparr>)
          else ([Call_vTaskDelay (pdMS_TO_TICKS cfg 50), Call_xQueueSendToBack h p 0,
                 Call_vSerialPutString (''Could not send to the queue.'' @ CRLF)],
                q))"
    using distinct
    by (simp add: sender_pass_def queue_send_def status_of_send_def vSenderTask_iteration_def)
  from passes count on_queue show ?thesis by blast
qed

theorem C2_sender_pass_witness:
  "errQUEUE_FULL demo_config \<noteq> pdPASS demo_config
   \<and> vSenderTask demo_config 1 200 [1, 0, 1] =
       [Call_vTaskDelay 50, Call_xQueueSendToBack 1 200 0,
        Call_vTaskDelay 50, Call_xQueueSendToBack 1 200 0,
        Call_vSerialPutString (''Could not send to the queue.'' @ CRLF),
        Call_vTaskDelay 50, Call_xQueueSendToBack 1 200 0]
   \<and> sender_pass demo_config 1 200
         \<lparr>capacity = 5, item_size = 4, buffered = [100, 200, 100, 200, 100]\<rparr> =
       ([Call_vTaskDelay 50, Call_xQueueSendToBack 1 200 0,
         Call_vSerialPutString (''Could not send to the queue.'' @ CRLF)],
        \<lparr>capacity = 5, item_size = 4, buffered = [100, 200, 100, 200, 100]\<rparr>)"
proof -
  have distinct: "errQUEUE_FULL demo_config \<noteq> pdPASS demo_config"
    by (simp add: demo_config_def)
  have one: "vSenderTask demo_config 1 200 [1] =
      [Call_vTaskDelay 50, Call_xQueueSendToBack 1 200 0]"
    by (simp add: vSenderTask_def vSenderTask_iteration_def demo_config_simps)
  show ?thesis
    using distinct
      C2_sender_pass [OF distinct, of 1 200 "[1]" 0 "[1]" "[]"
        "\<lparr>capacity = 5, item_size = 4, buffered = [100, 200, 100, 200, 100]\<rparr>"]
    by (simp add: one queue_occupancy_def demo_config_simps)
qed

subsection \<open>The entry routine\<close>

lemma main_run_stays:
  "main_step cfg env (main_run cfg env k) = main_run cfg env k \<Longrightarrow>
   main_run cfg env (k + m) = main_run cfg env k"
  by (induction m) simp_all

lemma calls_main_step: "\<exists>more. calls (main_step cfg env s) = calls s @ more"
  by (cases "location s") (simp_all add: main_step_def proceed_def Let_def)

lemma calls_main_run_grow:
  "\<exists>more. calls (main_run cfg env (n + m)) = calls (main_run cfg env n) @ more"
proof (induction m)
  case 0
  show ?case by simp
next
  case (Suc m)
  then obtain xs where xs: "calls (main_run cfg env (n + m)) = calls (main_run cfg env n) @ xs"
    by blast
  obtain ys where "calls (main_step cfg env (main_run cfg env (n + m)))
      = calls (main_run cfg env (n + m)) @ ys"
    using calls_main_step by blast
  with xs show ?case by simp
qed

lemma main_run_5:
  "main_run cfg env 5 =
     \<lparr>location = (if xQueueCreate_returns env \<noteq> NULL then At_vQueueAddToRegistry
                  else At_for_ever),
      xQueue = xQueueCreate_returns env, calls = calls_to_xQueueCreate\<rparr>"
proof -
  have "(5::nat) = Suc (Suc (Suc (Suc (Suc 0))))" by simp
  then have "main_run cfg env 5 =
      main_step cfg env (main_step cfg env (main_step cfg env (main_step cfg env
        (main_step cfg env main_init))))"
    by (simp only: main_run.simps)
  then show ?thesis
    by (simp add: main_step_def proceed_def main_init_def Let_def)
qed

lemma main_run_failed:
  assumes "xQueueCreate_returns env = NULL"
  shows "main_run cfg env (5 + n) =
     \<lparr>location = At_for_ever, xQueue = NULL, calls = calls_to_xQueueCreate\<rparr>"
proof -
  have five: "main_run cfg env 5 =
      \<lparr>location = At_for_ever, xQueue = NULL, calls = calls_to_xQueueCreate\<rparr>"
    using assms by (simp add: main_run_5)
  then have "main_step cfg env (main_run cfg env 5) = main_run cfg env 5"
    by (simp add: main_step_def)
  then have "main_run cfg env (5 + n) = main_run cfg env 5"
    by (rule main_run_stays)
  with five show ?thesis by simp
qed

lemma main_run_10:
  assumes "xQueueCreate_returns env \<noteq> NULL"
  shows "main_run cfg env 10 =
     \<lparr>location = (if vTaskStartScheduler_returns env then At_for_ever else Scheduler_running),
      xQueue = xQueueCreate_returns env,
      calls = calls_to_xQueueCreate @ calls_after_xQueueCreate cfg (xQueueCreate_returns env)\<rparr>"
proof -
  have "(10::nat) = Suc (Suc (Suc (Suc (Suc 5))))" by simp
  then have "main_run cfg env 10 =
      main_step cfg env (main_step cfg env (main_step cfg env (main_step cfg env
        (main_step cfg env (main_run cfg env 5)))))"
    by (simp only: main_run.simps)
  then show ?thesis
    using assms by (simp add: main_run_5 main_step_def proceed_def)
qed

lemma main_run_created:
  assumes "xQueueCreate_returns env \<noteq> NULL"
  shows "main_run cfg env (10 + n) =
     \<lparr>location = (if vTaskStartScheduler_returns env then At_for_ever else Scheduler_running),
      xQueue = xQueueCreate_returns env,
      calls = calls_to_xQueueCreate @ calls_after_xQueueCreate cfg (xQueueCreate_returns env)\<rparr>"
proof -
  have "main_step cfg env (main_run cfg env 10) = main_run cfg env 10"
    by (simp add: main_run_10 [OF assms] main_step_def)
  then have "main_run cfg env (10 + n) = main_run cfg env 10"
    by (rule main_run_stays)
  with main_run_10 [OF assms] show ?thesis by simp
qed

lemma calls_main_run_complete:
  "calls (main_run cfg env (10 + n)) =
     calls_to_xQueueCreate @
     (if xQueueCreate_returns env \<noteq> NULL
      then calls_after_xQueueCreate cfg (xQueueCreate_returns env) else [])"
proof (cases "xQueueCreate_returns env = NULL")
  case True
  have "main_run cfg env (10 + n) = main_run cfg env (5 + (5 + n))" by simp
  then show ?thesis
    using True by (simp only: main_run_failed [OF True]) simp
next
  case False
  then show ?thesis by (simp add: main_run_created)
qed

text \<open>
  Claim C4: in every complete run of \<^verbatim>\<open>main\<close> there is exactly one call of
  \<^verbatim>\<open>xQueueCreate\<close>, for 5 elements of \<^verbatim>\<open>sizeof(int32_t)\<close>, that is 4, bytes; no
  task is created and the scheduler is not started before that call, and at no moment
  of the run has there been more than one such call.
\<close>

theorem C4_one_queue:
  "filter is_xQueueCreate (calls (main_run cfg env (10 + n)))
     = [Call_xQueueCreate 5 sizeof_int32_t]
   \<and> sizeof_int32_t = 4
   \<and> list_all (\<lambda>c. \<not> is_xTaskCreate c \<and> c \<noteq> Call_vTaskStartScheduler)
        (takeWhile (\<lambda>c. \<not> is_xQueueCreate c) (calls (main_run cfg env (10 + n))))
   \<and> length (filter is_xQueueCreate (calls (main_run cfg env n))) \<le> 1"
proof -
  have once: "filter is_xQueueCreate (calls (main_run cfg env (10 + n)))
      = [Call_xQueueCreate 5 sizeof_int32_t]"
    by (simp add: calls_main_run_complete)
  have before: "list_all (\<lambda>c. \<not> is_xTaskCreate c \<and> c \<noteq> Call_vTaskStartScheduler)
      (takeWhile (\<lambda>c. \<not> is_xQueueCreate c) (calls (main_run cfg env (10 + n))))"
    by (simp add: calls_main_run_complete)
  obtain more where "calls (main_run cfg env (n + 10)) = calls (main_run cfg env n) @ more"
    using calls_main_run_grow by blast
  then have "length (filter is_xQueueCreate (calls (main_run cfg env n)))
      \<le> length (filter is_xQueueCreate (calls (main_run cfg env (n + 10))))"
    by simp
  also have "n + 10 = 10 + n" by simp
  finally have at_most: "length (filter is_xQueueCreate (calls (main_run cfg env n))) \<le> 1"
    by (simp only: once) simp
  from once before at_most show ?thesis
    by (simp add: sizeof_int32_t_def)
qed

text \<open>
  Claim C5: when \<^verbatim>\<open>xQueueCreate\<close> returns a null handle, \<^verbatim>\<open>main\<close> never creates a
  task and never starts the scheduler; from its fifth step on it is in the empty loop
  at the end of the function, where a step changes nothing and no call is made any
  more.
\<close>

theorem C5_creation_fails:
  "xQueueCreate_returns env = NULL \<Longrightarrow>
     (\<forall>c \<in> set (calls (main_run cfg env n)).
        \<not> is_xTaskCreate c \<and> c \<noteq> Call_vTaskStartScheduler)
     \<and> location (main_run cfg env (5 + n)) = At_for_ever
     \<and> calls (main_run cfg env (5 + n)) = calls (main_run cfg env 5)
     \<and> main_step cfg env (main_run cfg env (5 + n)) = main_run cfg env (5 + n)"
proof -
  assume failed: "xQueueCreate_returns env = NULL"
  note stable = main_run_failed [OF failed, of cfg]
  obtain more where "calls (main_run cfg env (n + 5)) = calls (main_run cfg env n) @ more"
    using calls_main_run_grow by blast
  moreover have "n + 5 = 5 + n" by simp
  ultimately have "calls (main_run cfg env n) @ more = calls_to_xQueueCreate"
    by (simp only: stable) simp
  then have "set (calls (main_run cfg env n)) \<subseteq> set calls_to_xQueueCreate"
    by (metis set_append Un_upper1)
  then have none: "\<forall>c \<in> set (calls (main_run cfg env n)).
      \<not> is_xTaskCreate c \<and> c \<noteq> Call_vTaskStartScheduler"
    by auto
  have spin: "main_step cfg env (main_run cfg env (5 + n)) = main_run cfg env (5 + n)"
    by (simp add: stable main_step_def)
  from none spin stable [of n] stable [of 0] show ?thesis by simp
qed

theorem C5_creation_fails_witness:
  "xQueueCreate_returns \<lparr>xQueueCreate_returns = 0, vTaskStartScheduler_returns = False\<rparr> = NULL
   \<and> main_run demo_config \<lparr>xQueueCreate_returns = 0, vTaskStartScheduler_returns = False\<rparr> 12
     = \<lparr>location = At_for_ever, xQueue = NULL,
        calls = [Call_rgb_init, Call_xSerialPortInit 921600 128,
                 Call_vSerialPutString banner_1, Call_vSerialPutString banner_2,
                 Call_xQueueCreate 5 4]\<rparr>"
proof -
  let ?env = "\<lparr>xQueueCreate_returns = 0, vTaskStartScheduler_returns = False\<rparr>"
  have failed: "xQueueCreate_returns ?env = NULL" by (simp add: NULL_def)
  have five: "main_run demo_config ?env 5
     = \<lparr>location = At_for_ever, xQueue = NULL,
        calls = [Call_rgb_init, Call_xSerialPortInit 921600 128,
                 Call_vSerialPutString banner_1, Call_vSerialPutString banner_2,
                 Call_xQueueCreate 5 4]\<rparr>"
    by (simp add: main_run_5 NULL_def sizeof_int32_t_def)
  have twelve: "(12::nat) = 5 + 7" by simp
  from C5_creation_fails [OF failed, of demo_config 7]
  have "location (main_run demo_config ?env 12) = At_for_ever
     \<and> calls (main_run demo_config ?env 12) = calls (main_run demo_config ?env 5)"
    unfolding twelve by blast
  moreover have "xQueue (main_run demo_config ?env 12) = NULL"
    unfolding twelve using main_run_failed [OF failed, of demo_config 7] by simp
  ultimately have "main_run demo_config ?env 12 = 
      \<lparr>location = At_for_ever, xQueue = NULL, calls = calls (main_run demo_config ?env 5)\<rparr>"
    by (cases "main_run demo_config ?env 12") simp
  with failed five show ?thesis by simp
qed

text \<open>
  Claim C6: \<^verbatim>\<open>main\<close> creates exactly three tasks, two senders with the parameters
  100 and 200 at priority 1 and the receiver at priority 2; this is inside the guard
  \<^verbatim>\<open>xQueue != NULL\<close>, and without a queue it creates none. A sender sends its
  parameter, and nothing else, in every pass.
\<close>

theorem C6_tasks:
  "filter is_xTaskCreate (calls (main_run cfg env (10 + n))) =
     (if xQueueCreate_returns env \<noteq> NULL
      then [Call_xTaskCreate Fn_vSenderTask ''Sender1'' (configMINIMAL_STACK_SIZE cfg)
              100 1 NULL,
            Call_xTaskCreate Fn_vSenderTask ''Sender2'' (configMINIMAL_STACK_SIZE cfg)
              200 1 NULL,
            Call_xTaskCreate Fn_vReceiverTask ''Receiver'' (configMINIMAL_STACK_SIZE cfg)
              NULL 2 NULL]
      else [])
   \<and> filter is_xQueueSendToBack (vSenderTask cfg h pvParameters answers) =
       replicate (length answers) (Call_xQueueSendToBack h pvParameters 0)"
proof -
  have sends: "filter is_xQueueSendToBack (vSenderTask_loop cfg h v answers) =
      replicate (length answers) (Call_xQueueSendToBack h v 0)" for v
    by (induction answers) (simp_all add: vSenderTask_iteration_def)
  from sends show ?thesis
    by (simp add: calls_main_run_complete vSenderTask_def)
qed

theorem C6_tasks_witness:
  "filter is_xTaskCreate
     (calls (main_run demo_config
        \<lparr>xQueueCreate_returns = 1, vTaskStartScheduler_returns = False\<rparr> 10)) =
     [Call_xTaskCreate Fn_vSenderTask ''Sender1'' 128 100 1 0,
      Call_xTaskCreate Fn_vSenderTask ''Sender2'' 128 200 1 0,
      Call_xTaskCreate Fn_vReceiverTask ''Receiver'' 128 0 2 0]
   \<and> filter is_xQueueSendToBack (vSenderTask demo_config 1 100 [1, 0]) =
       [Call_xQueueSendToBack 1 100 0, Call_xQueueSendToBack 1 100 0]"
proof -
  have two: "replicate (length [1 :: BaseType_t, 0]) c = [c, c]" for c :: call
    by simp
  from C6_tasks [of demo_config
      "\<lparr>xQueueCreate_returns = 1, vTaskStartScheduler_returns = False\<rparr>" 0 1 100 "[1, 0]"]
  show ?thesis
    by (simp only: two) (simp add: demo_config_simps NULL_def)
qed

text \<open>
  Claim C8: before the call that creates the queue \<^verbatim>\<open>main\<close> has initialised the
  serial port with the arguments 921600 and 128 and has emitted the two banner lines,
  in this order.
\<close>

theorem C8_serial_banner:
  "takeWhile (\<lambda>c. \<not> is_xQueueCreate c) (calls (main_run cfg env (10 + n))) =
     [Call_rgb_init, Call_xSerialPortInit 921600 128,
      Call_vSerialPutString (CRLF @ ''FRDM-KL25Z FreeRTOS demo Week 3 - Example 01'' @ CRLF),
      Call_vSerialPutString (''By Hugo Arends'' @ CRLF @ CRLF)]
   \<and> Call_xQueueCreate 5 sizeof_int32_t \<in> set (calls (main_run cfg env (10 + n)))"
  by (simp add: calls_main_run_complete)

subsection \<open>The queue under every schedule\<close>

lemma queue_send_within: "queue_within q \<Longrightarrow> queue_within (snd (queue_send q v t))"
  by (auto simp: queue_within_def queue_send_def queue_occupancy_def)

lemma queue_receive_within: "queue_within q \<Longrightarrow> queue_within (snd (queue_receive q t))"
  by (auto simp: queue_within_def queue_receive_def queue_occupancy_def split: list.splits)

lemma sender_pass_queue: "snd (sender_pass cfg h v q) = snd (queue_send q v 0)"
  by (simp add: sender_pass_def case_prod_beta)

lemma receiver_pass_queue:
  "snd (snd (snd (receiver_pass cfg h old q))) = snd (queue_receive q (pdMS_TO_TICKS cfg 100))"
  by (simp add: receiver_pass_def Let_def case_prod_beta)

lemma task_pass_queue:
  "sys_queue (task_pass cfg h s t) =
     (case t of
        Sender1 \<Rightarrow> snd (queue_send (sys_queue s) 100 0)
      | Sender2 \<Rightarrow> snd (queue_send (sys_queue s) 200 0)
      | Receiver \<Rightarrow> snd (queue_receive (sys_queue s) (pdMS_TO_TICKS cfg 100)))"
  by (cases t) (simp_all add: case_prod_beta sender_pass_queue receiver_pass_queue)

lemma task_pass_within:
  "queue_within (sys_queue s) \<Longrightarrow> queue_within (sys_queue (task_pass cfg h s t))"
  unfolding task_pass_queue
  by (cases t) (simp_all add: queue_send_within queue_receive_within)

lemma run_schedule_within:
  "queue_within (sys_queue s) \<Longrightarrow> queue_within (sys_queue (run_schedule cfg h schedule s))"
  unfolding run_schedule_def
  by (induction schedule arbitrary: s) (simp_all add: task_pass_within)

lemma system_init_within: "queue_within (sys_queue (system_init l0))"
  by (simp add: queue_within_def system_init_def queue_create_def queue_occupancy_def)

lemma queue_send_values:
  "set (buffered q) \<subseteq> {100, 200} \<Longrightarrow> v = 100 \<or> v = 200 \<Longrightarrow>
   set (buffered (snd (queue_send q v t))) \<subseteq> {100, 200}"
  by (auto simp: queue_send_def)

lemma queue_receive_values:
  "set (buffered q) \<subseteq> {100, 200} \<Longrightarrow>
   set (buffered (snd (queue_receive q t))) \<subseteq> {100, 200}"
  by (auto simp: queue_receive_def split: list.splits)

lemma task_pass_values:
  "set (buffered (sys_queue s)) \<subseteq> {100, 200} \<Longrightarrow>
   set (buffered (sys_queue (task_pass cfg h s t))) \<subseteq> {100, 200}"
  unfolding task_pass_queue
  by (cases t) (simp_all add: queue_send_values queue_receive_values)

text \<open>
  On every schedule the queue holds nothing but the values 100 and 200 of the two
  senders: these are the values the receiver can be given.
\<close>

lemma run_schedule_values:
  "set (buffered (sys_queue (run_schedule cfg h schedule (system_init l0)))) \<subseteq> {100, 200}"
proof -
  have "set (buffered (sys_queue s)) \<subseteq> {100, 200} \<Longrightarrow>
      set (buffered (sys_queue (foldl (task_pass cfg h) s schedule))) \<subseteq> {100, 200}" for s
    by (induction schedule arbitrary: s) (simp_all add: task_pass_values)
  then show ?thesis
    by (simp add: run_schedule_def system_init_def queue_create_def)
qed

text \<open>
  Claim C7: whatever the order in which the two senders and the receiver make their
  passes on the queue that \<^verbatim>\<open>main\<close> creates, the number of buffered elements is at
  most 5, the capacity, and is not negative. The queue of the schedules is the one of
  \<^verbatim>\<open>main\<close>'s call of \<^verbatim>\<open>xQueueCreate\<close>.
\<close>

theorem C7_occupancy_bounded:
  "queue_occupancy (sys_queue (run_schedule cfg h schedule (system_init l0))) \<le> 5
   \<and> 0 \<le> int (queue_occupancy (sys_queue (run_schedule cfg h schedule (system_init l0))))
   \<and> capacity (sys_queue (run_schedule cfg h schedule (system_init l0))) = 5
   \<and> Call_xQueueCreate (capacity (sys_queue (system_init l0)))
        (item_size (sys_queue (system_init l0)))
       \<in> set (calls (main_run cfg env (10 + n)))"
proof -
  have created: "Call_xQueueCreate (capacity (sys_queue (system_init l0)))
        (item_size (sys_queue (system_init l0)))
       \<in> set (calls (main_run cfg env (10 + n)))"
    by (simp add: calls_main_run_complete system_init_def queue_create_def)
  from run_schedule_within [OF system_init_within, of cfg h schedule l0] created
  show ?thesis
    by (simp add: queue_within_def)
qed

theorem C7_occupancy_bounded_witness:
  "queue_occupancy (sys_queue (run_schedule demo_config 1
      [Sender1, Sender2, Sender1, Sender2, Sender1, Sender2, Sender1] (system_init 0))) = 5
   \<and> buffered (sys_queue (run_schedule demo_config 1
      [Sender1, Sender2, Sender1, Sender2, Sender1, Sender2, Sender1, Receiver]
      (system_init 0))) = [200, 100, 200, 100]
   \<and> queue_occupancy (sys_queue (run_schedule demo_config 1
      [Receiver, Sender1, Receiver, Receiver] (system_init 0))) = 0"
proof -
  have full: "buffered (sys_queue (run_schedule demo_config 1
      [Sender1, Sender2, Sender1, Sender2, Sender1, Sender2, Sender1] (system_init 0)))
      = [100, 200, 100, 200, 100]"
    by (simp add: run_schedule_def system_init_def queue_create_def sender_pass_def
        queue_send_def queue_occupancy_def)
  have one_less: "buffered (sys_queue (run_schedule demo_config 1
      [Sender1, Sender2, Sender1, Sender2, Sender1, Sender2, Sender1, Receiver]
      (system_init 0))) = [200, 100, 200, 100]"
    by (simp add: run_schedule_def system_init_def queue_create_def sender_pass_def
        receiver_pass_def queue_send_def queue_receive_def queue_occupancy_def Let_def
        case_prod_beta)
  have drained: "buffered (sys_queue (run_schedule demo_config 1
      [Receiver, Sender1, Receiver, Receiver] (system_init 0))) = []"
    by (simp add: run_schedule_def system_init_def queue_create_def sender_pass_def
        receiver_pass_def queue_send_def queue_receive_def queue_occupancy_def Let_def
        case_prod_beta)
  from full one_less drained
    C7_occupancy_bounded [of demo_config 1
      "[Sender1, Sender2, Sender1, Sender2, Sender1, Sender2, Sender1]" 0
      "\<lparr>xQueueCreate_returns = 1, vTaskStartScheduler_returns = False\<rparr>" 0]
  show ?thesis
    by (simp add: queue_occupancy_def)
qed

end
